theory Spec2Isabelle
  imports Main "HOL-Library.Sublist"
begin

section \<open>The wallpaper manager of wallpaper.py\<close>

text \<open>
  The embedding follows \<^verbatim>\<open>src/wallpaper.py\<close>. A \<^verbatim>\<open>WallpaperManager\<close> object is a
  record; the things it acts on outside the Python heap (the desktop background, the two
  JSON files, the output sink and the console) are further fields of the same record, so
  that every method is a function from a state to an outcome and a state.

  A method either returns, raises, or never gets past \<^verbatim>\<open>self.lock.acquire()\<close> because the
  (non-reentrant) \<^verbatim>\<open>threading.Lock\<close> is held and nobody is left to release it. These are
  the three constructors of \<open>outcome\<close>; the state that the method leaves behind is
  returned in every case.
\<close>

type_synonym path = string

datatype error = ValueError | IndexError | OSError

datatype 'a outcome = Return 'a | Raise error | Block

text \<open>
  How \<^verbatim>\<open>with open(path, "w") as fp: json.dump(xs, fp)\<close> ends is decided by the file
  system: it succeeds, or \<^verbatim>\<open>open\<close> raises and the file is as before, or the dump raises
  after \<^verbatim>\<open>open\<close> has truncated the file. A file holds a JSON array (\<open>Some xs\<close>) or
  something that is not one (\<open>None\<close>).
\<close>

datatype write_outcome = WriteOk | OpenFails | DumpFails

record manager =
  root_directory :: string
  save_directory :: string
  legal_extensions :: "string list"
  update_period_minutes :: int
  file_out :: bool
  lock :: bool
  disliked_filepaths :: "path list"
  favorites_filepaths :: "path list"
  indexed :: "path list"
  chosen :: path
  history :: "path list"
  done_flag :: bool
  wallpaper :: path
  printed :: "string list"
  console :: "string list"
  disliked_file :: "path list option"
  favorites_file :: "path list option"

text \<open>\<^verbatim>\<open>set_wallpaper(path)\<close>: the platform call, seen as a write of the current background.\<close>

definition set_wallpaper :: "path \<Rightarrow> manager \<Rightarrow> manager" where
  "set_wallpaper p m = m\<lparr>wallpaper := p\<rparr>"

text \<open>\<^verbatim>\<open>if self.file_out: print(s, file=self.file_out)\<close>\<close>

definition emit :: "string \<Rightarrow> manager \<Rightarrow> manager" where
  "emit s m = (if file_out m then m\<lparr>printed := printed m @ [s]\<rparr> else m)"

fun json_write :: "write_outcome \<Rightarrow> path list \<Rightarrow> path list option \<Rightarrow> bool \<times> path list option" where
  "json_write WriteOk xs old = (True, Some xs)"
| "json_write OpenFails xs old = (False, old)"
| "json_write DumpFails xs old = (False, None)"

text \<open>
  \<^verbatim>\<open>WallpaperManager.__init__\<close>, given what it reads from outside: the result of
  \<^verbatim>\<open>index(root_directory)\<close>, the contents of the two JSON files and the result of
  \<^verbatim>\<open>get_wallpaper()\<close>. The nested loop appends a path once for every legal extension it
  ends with.
\<close>

definition filter_extensions :: "path list \<Rightarrow> string list \<Rightarrow> path list" where
  "filter_extensions idx exts =
     concat (map (\<lambda>filepath. concat (map (\<lambda>extension. if suffix extension filepath then [filepath] else []) exts)) idx)"

definition init :: "string \<Rightarrow> string \<Rightarrow> string list \<Rightarrow> int \<Rightarrow> bool \<Rightarrow> path list \<Rightarrow> path list \<Rightarrow> path list \<Rightarrow> path \<Rightarrow> manager" where
  "init root save exts period out idx disliked favs current =
     \<lparr> root_directory = root, save_directory = save, legal_extensions = exts,
       update_period_minutes = period, file_out = out, lock = False,
       disliked_filepaths = disliked, favorites_filepaths = favs,
       indexed = filter (\<lambda>filepath. filepath \<notin> set disliked) (filter_extensions idx exts),
       chosen = current, history = [current], done_flag = False,
       wallpaper = current, printed = [], console = [],
       disliked_file = Some disliked, favorites_file = Some favs \<rparr>"

subsection \<open>The methods\<close>

text \<open>
  \<^verbatim>\<open>undo\<close>: \<^verbatim>\<open>history.pop()\<close> drops the last entry, \<^verbatim>\<open>history[-1]\<close> is the new last one.
  The method does not assign \<^verbatim>\<open>self.chosen\<close>.
\<close>

definition undo :: "manager \<Rightarrow> unit outcome \<times> manager" where
  "undo m =
     (if lock m then (Block, m)
      else let m1 = m\<lparr>lock := True\<rparr>;
               m2 = (if length (history m1) > 1
                     then let m3 = m1\<lparr>history := butlast (history m1)\<rparr>;
                              top = last (history m3)
                          in emit top (set_wallpaper top m3)
                     else m1)
           in (Return (), m2\<lparr>lock := False\<rparr>))"

text \<open>
  \<^verbatim>\<open>favorite\<close>: the append comes before the \<^verbatim>\<open>try\<close>; the \<^verbatim>\<open>finally\<close> releases the lock
  whether the write succeeded or raised.
\<close>

definition favorite :: "write_outcome \<Rightarrow> manager \<Rightarrow> unit outcome \<times> manager" where
  "favorite w m =
     (if lock m then (Block, m)
      else let m1 = m\<lparr>lock := True\<rparr>;
               m2 = m1\<lparr>favorites_filepaths := favorites_filepaths m1 @ [chosen m1]\<rparr>;
               m3 = emit (chosen m2) m2;
               (ok, f) = json_write w (favorites_filepaths m3) (favorites_file m3);
               m4 = m3\<lparr>favorites_file := f, lock := False\<rparr>
           in (if ok then Return () else Raise OSError, m4))"

text \<open>
  \<^verbatim>\<open>random.choice(seq)\<close> raises \<^verbatim>\<open>IndexError\<close> on an empty sequence and otherwise returns
  \<^verbatim>\<open>seq[i]\<close> for a random index \<open>i\<close> below the length. The model takes the random
  number \<open>r\<close> as an argument and reduces it modulo the length, so every element can be
  the result and nothing else can.

  \<^verbatim>\<open>pick\<close> has no \<^verbatim>\<open>try\<close>: when \<^verbatim>\<open>random.choice\<close> raises, the lock stays acquired.
\<close>

definition pick :: "bool \<Rightarrow> nat \<Rightarrow> manager \<Rightarrow> unit outcome \<times> manager" where
  "pick favorites r m =
     (if lock m then (Block, m)
      else let m1 = m\<lparr>lock := True\<rparr>;
               pool = (if favorites \<and> length (favorites_filepaths m1) > 0
                       then favorites_filepaths m1 else indexed m1)
           in if pool = [] then (Raise IndexError, m1)
              else let choice = pool ! (r mod length pool);
                       m2 = m1\<lparr>chosen := choice\<rparr>;
                       m3 = emit (chosen m2) m2;
                       m4 = set_wallpaper (chosen m3) m3;
                       m5 = m4\<lparr>history := history m4 @ [chosen m4]\<rparr>
                   in (Return (), m5\<lparr>lock := False\<rparr>))"

text \<open>
  \<^verbatim>\<open>dislike\<close>: \<^verbatim>\<open>list.remove(x)\<close> deletes the first occurrence of \<open>x\<close> and raises
  \<^verbatim>\<open>ValueError\<close> when there is none. For the history the error is swallowed
  (\<^verbatim>\<open>except: pass\<close>), which is \<open>remove1\<close>; for \<^verbatim>\<open>self.indexed\<close> it is not caught and it
  is raised before the \<^verbatim>\<open>try ... finally\<close> that releases the lock. After the release the
  method calls \<^verbatim>\<open>self.pick()\<close>, which acquires the lock again.
\<close>

definition dislike :: "write_outcome \<Rightarrow> nat \<Rightarrow> manager \<Rightarrow> unit outcome \<times> manager" where
  "dislike w r m =
     (if lock m then (Block, m)
      else let m1 = m\<lparr>lock := True\<rparr>;
               m2 = emit (chosen m1) m1;
               m3 = m2\<lparr>history := remove1 (chosen m2) (history m2)\<rparr>
           in if chosen m3 \<notin> set (indexed m3) then (Raise ValueError, m3)
              else let m4 = m3\<lparr>indexed := remove1 (chosen m3) (indexed m3)\<rparr>;
                       m5 = m4\<lparr>disliked_filepaths := disliked_filepaths m4 @ [chosen m4]\<rparr>;
                       (ok, f) = json_write w (disliked_filepaths m5) (disliked_file m5);
                       m6 = m5\<lparr>disliked_file := f, lock := False\<rparr>
                   in if ok then pick False r m6 else (Raise OSError, m6))"



subsection \<open>The rotation loop\<close>

text \<open>
  \<^verbatim>\<open>run\<close> executes on a thread of its own, and \<^verbatim>\<open>self.done\<close> is set by the other thread.
  Time is counted in completed \<^verbatim>\<open>time.sleep(5)\<close> calls: \<open>stop t\<close> tells whether the
  other thread has called \<^verbatim>\<open>set_done\<close> by the time \<open>t\<close> sleeps have completed, so the
  flag that \<^verbatim>\<open>run\<close> reads at that time is \<open>done_flag m \<or> stop t\<close>. \<open>draws k\<close> is the random
  number of the \<open>k\<close>-th \<^verbatim>\<open>pick\<close> of the loop.

  \<open>seconds\<close> is the inner \<^verbatim>\<open>for _ in range(60//5)\<close>, \<open>minutes\<close> the outer
  \<^verbatim>\<open>for _ in range(self.update_period_minutes)\<close>; both give back whether the
  \<^verbatim>\<open>return\<close> was taken and the time reached. The \<^verbatim>\<open>while\<close> loop can run forever, so
  \<open>run\<close> takes fuel (the number of \<^verbatim>\<open>while\<close> tests allowed) and \<open>None\<close> means that the
  fuel ran out. The result carries the time reached and the number of \<^verbatim>\<open>pick\<close> calls made.
\<close>

fun seconds :: "(nat \<Rightarrow> bool) \<Rightarrow> manager \<Rightarrow> nat \<Rightarrow> nat \<Rightarrow> bool \<times> nat" where
  "seconds stop m 0 t = (False, t)"
| "seconds stop m (Suc n) t =
     (if done_flag m \<or> stop t then (True, t) else seconds stop m n (Suc t))"

fun minutes :: "(nat \<Rightarrow> bool) \<Rightarrow> manager \<Rightarrow> nat \<Rightarrow> nat \<Rightarrow> bool \<times> nat" where
  "minutes stop m 0 t = (False, t)"
| "minutes stop m (Suc p) t =
     (case seconds stop m (60 div 5) t of
        (True, t') \<Rightarrow> (True, t')
      | (False, t') \<Rightarrow> minutes stop m p t')"

fun run :: "nat \<Rightarrow> (nat \<Rightarrow> bool) \<Rightarrow> (nat \<Rightarrow> nat) \<Rightarrow> manager \<Rightarrow> nat \<Rightarrow> nat
              \<Rightarrow> (unit outcome \<times> manager \<times> nat \<times> nat) option" where
  "run 0 stop draws m t k = None"
| "run (Suc fuel) stop draws m t k =
     (if done_flag m \<or> stop t then Some (Return (), m, t, k)
      else case minutes stop m (nat (update_period_minutes m)) t of
             (True, t') \<Rightarrow> Some (Return (), m, t', k)
           | (False, t') \<Rightarrow>
               (case pick False (draws k) m of
                  (Return u, m') \<Rightarrow> run fuel stop draws m' t' (Suc k)
                | (Raise e, m') \<Rightarrow> Some (Raise e, m', t', Suc k)
                | (Block, m') \<Rightarrow> Some (Block, m', t', Suc k)))"

subsection \<open>The command reader\<close>









subsection \<open>A concrete start\<close>

text \<open>
  A manager as \<^verbatim>\<open>WallpaperManager.open\<close> builds it: three files under the root, two of
  them with a legal extension, nothing disliked, one favorite, and a desktop background
  that is not one of the indexed files.
\<close>

definition example :: manager where
  "example = init ''pictures'' ''save'' [''.jpg''] 1 True
               [''a.jpg'', ''b.png'', ''c.jpg''] [] [''f.jpg''] ''seed.bmp''"

text \<open>The same manager after a first \<^verbatim>\<open>pick\<close>, and after a second one that draws the same path.\<close>

definition shown :: manager where
  "shown = snd (pick False 0 example)"




definition bare :: manager where
  "bare = init ''empty'' ''save'' [''.jpg''] 1 True [] [] [] ''seed.bmp''"

text \<open>
  Two schedules of the other thread (\<^verbatim>\<open>set_done\<close> never called; called while the loop is in
  its \<open>s\<close>-th sleep, so that the flag is up once \<open>s\<close> sleeps have completed), a
  random source that always gives 0, and a reader in normal mode.
\<close>

definition never_stopped :: "nat \<Rightarrow> bool" where
  "never_stopped t = False"

definition stopped_from :: "nat \<Rightarrow> nat \<Rightarrow> bool" where
  "stopped_from s t = (s \<le> t)"

definition first_draws :: "nat \<Rightarrow> nat" where
  "first_draws k = 0"


section \<open>Properties\<close>

subsection \<open>Basic facts\<close>

lemma emit_fields [simp]:
  "lock (emit s m) = lock m"
  "history (emit s m) = history m"
  "chosen (emit s m) = chosen m"
  "indexed (emit s m) = indexed m"
  "wallpaper (emit s m) = wallpaper m"
  "disliked_filepaths (emit s m) = disliked_filepaths m"
  "favorites_filepaths (emit s m) = favorites_filepaths m"
  "disliked_file (emit s m) = disliked_file m"
  "favorites_file (emit s m) = favorites_file m"
  "done_flag (emit s m) = done_flag m"
  "file_out (emit s m) = file_out m"
  by (simp_all add: emit_def)

lemma json_write_cases:
  "json_write w xs old = (w = WriteOk, case w of WriteOk \<Rightarrow> Some xs | OpenFails \<Rightarrow> old | DumpFails \<Rightarrow> None)"
  by (cases w) simp_all

lemma pick_returns:
  "fst (pick f r m) = Return () \<longleftrightarrow>
     \<not> lock m \<and> (if f \<and> favorites_filepaths m \<noteq> [] then favorites_filepaths m else indexed m) \<noteq> []"
  by (simp add: pick_def Let_def)




subsection \<open>What dislike does when it returns\<close>




subsection \<open>A failing snapshot write\<close>

text \<open>
  Claim C7. When the write of the JSON file fails inside \<^verbatim>\<open>favorite\<close> or \<^verbatim>\<open>dislike\<close>,
  the method raises the error to its caller and the lock is free afterwards. (\<^verbatim>\<open>dislike\<close>
  reaches its write when the chosen path is in the pool.)
\<close>

theorem write_failure_releases_lock:
  "w \<noteq> WriteOk \<Longrightarrow> \<not> lock m \<Longrightarrow>
     fst (favorite w m) = Raise OSError \<and> \<not> lock (snd (favorite w m)) \<and>
     (chosen m \<in> set (indexed m) \<longrightarrow>
        fst (dislike w r m) = Raise OSError \<and> \<not> lock (snd (dislike w r m)))"
  by (simp add: favorite_def dislike_def Let_def json_write_cases)

theorem write_failure_releases_lock_witness:
  "DumpFails \<noteq> WriteOk \<and> \<not> lock shown \<and>
   chosen shown \<in> set (indexed shown) \<and>
   fst (favorite DumpFails shown) = Raise OSError \<and>
   \<not> lock (snd (favorite DumpFails shown)) \<and>
   fst (dislike DumpFails 0 shown) = Raise OSError \<and>
   \<not> lock (snd (dislike DumpFails 0 shown))"
proof -
  have a: "DumpFails \<noteq> WriteOk" by simp
  have b: "\<not> lock shown" by code_simp
  have c: "chosen shown \<in> set (indexed shown)"
    by code_simp
  show ?thesis
    using write_failure_releases_lock [OF a b, of 0] a b c by blast
qed

text \<open>
  Claim C10. When the write fails, the memory keeps what the method had already changed:
  \<^verbatim>\<open>favorite\<close> leaves the chosen path appended to the favorites; \<^verbatim>\<open>dislike\<close> leaves the
  path appended to the disliked list and removed from pool and history. Starting from a file
  that agrees with the list in memory, the two differ afterwards, and \<^verbatim>\<open>dislike\<close> has not
  picked again: chosen path and background are the old ones.
\<close>

theorem write_failure_keeps_mutation:
  assumes "w \<noteq> WriteOk" and "\<not> lock m"
  shows "(favorites_file m = Some (favorites_filepaths m) \<longrightarrow>
           (let m' = snd (favorite w m)
            in fst (favorite w m) = Raise OSError \<and>
               favorites_filepaths m' = favorites_filepaths m @ [chosen m] \<and>
               favorites_file m' \<noteq> Some (favorites_filepaths m'))) \<and>
         (chosen m \<in> set (indexed m) \<and> disliked_file m = Some (disliked_filepaths m) \<longrightarrow>
           (let m' = snd (dislike w r m)
            in fst (dislike w r m) = Raise OSError \<and>
               disliked_filepaths m' = disliked_filepaths m @ [chosen m] \<and>
               indexed m' = remove1 (chosen m) (indexed m) \<and>
               history m' = remove1 (chosen m) (history m) \<and>
               disliked_file m' \<noteq> Some (disliked_filepaths m') \<and>
               chosen m' = chosen m \<and> wallpaper m' = wallpaper m))"
  using assms
  by (cases w) (simp_all add: favorite_def dislike_def Let_def)

theorem write_failure_keeps_mutation_witness:
  "OpenFails \<noteq> WriteOk \<and> \<not> lock shown \<and>
   favorites_file shown = Some (favorites_filepaths shown) \<and>
   chosen shown \<in> set (indexed shown) \<and>
   disliked_file shown = Some (disliked_filepaths shown) \<and>
   favorites_file (snd (favorite OpenFails shown)) \<noteq>
     Some (favorites_filepaths (snd (favorite OpenFails shown))) \<and>
   disliked_file (snd (dislike OpenFails 0 shown)) \<noteq>
     Some (disliked_filepaths (snd (dislike OpenFails 0 shown))) \<and>
   chosen (snd (dislike OpenFails 0 shown)) = chosen shown"
proof -
  have a: "OpenFails \<noteq> WriteOk" by simp
  have b: "\<not> lock shown" by code_simp
  have c: "favorites_file shown = Some (favorites_filepaths shown)"
    by code_simp
  have d: "chosen shown \<in> set (indexed shown)"
    by code_simp
  have e: "disliked_file shown = Some (disliked_filepaths shown)"
    by code_simp
  show ?thesis
    using write_failure_keeps_mutation [OF a b, of 0] a b c d e unfolding Let_def by blast
qed

subsection \<open>Chosen and the history\<close>

text \<open>
  Claim C1 at a failing input. The manager has picked \<^verbatim>\<open>a.jpg\<close> after the seed; \<^verbatim>\<open>undo\<close>
  pops the history and sets the background to the new top \<^verbatim>\<open>seed.bmp\<close>, but
  \<^verbatim>\<open>self.chosen\<close> is still \<^verbatim>\<open>a.jpg\<close>: it is not the last element of the history.
\<close>

theorem undo_leaves_chosen:
  "history shown = [''seed.bmp'', ''a.jpg''] \<and> chosen shown = ''a.jpg'' \<and>
   fst (undo shown) = Return () \<and>
   history (snd (undo shown)) = [''seed.bmp''] \<and>
   wallpaper (snd (undo shown)) = ''seed.bmp'' \<and>
   chosen (snd (undo shown)) = ''a.jpg'' \<and>
   chosen (snd (undo shown)) \<noteq> last (history (snd (undo shown)))"
  by code_simp

text \<open>
  Claim C3 at a failing input. Right after construction the history is the seed alone and
  the seed is not in the pool; \<^verbatim>\<open>dislike\<close> removes the seed from the history and then
  raises on \<^verbatim>\<open>self.indexed.remove\<close>: the history is left empty.
\<close>

theorem dislike_empties_history:
  "history example = [''seed.bmp''] \<and> chosen example = ''seed.bmp'' \<and>
   fst (dislike WriteOk 0 example) = Raise ValueError \<and>
   history (snd (dislike WriteOk 0 example)) = [] \<and>
   length (history (snd (dislike WriteOk 0 example))) < 1"
  by code_simp

subsection \<open>An empty pool\<close>

text \<open>
  Claim C5 at a failing input. With no candidate, \<^verbatim>\<open>pick\<close> raises with the lock still
  acquired; the rotation loop, after its twelve sleeps, makes that call and ends with the
  exception, and a later \<^verbatim>\<open>pick\<close> blocks.
\<close>

theorem pick_empty_pool_ends_loop:
  "indexed bare = [] \<and> \<not> lock bare \<and>
   pick False 0 bare = (Raise IndexError, bare\<lparr>lock := True\<rparr>) \<and>
   run 2 never_stopped first_draws bare 0 0 = Some (Raise IndexError, bare\<lparr>lock := True\<rparr>, 12, 1) \<and>
   fst (pick False 0 (bare\<lparr>lock := True\<rparr>)) = Block"
  by code_simp

subsection \<open>The stop flag and the rotation loop\<close>

text \<open>
  Claim C8 at a failing input. The period is one minute and the flag goes up during the
  twelfth sleep: the check before that sleep saw it down, no check follows the sleep, and
  \<^verbatim>\<open>pick\<close> is called once although the flag is up.
\<close>

theorem run_picks_after_stop:
  "\<not> stopped_from 12 11 \<and> stopped_from 12 12 \<and> update_period_minutes example = 1 \<and>
   run 2 (stopped_from 12) first_draws example 0 0 = Some (Return (), shown, 12, 1) \<and>
   shown = snd (pick False 0 example) \<and> history shown = history example @ [''a.jpg'']"
  by code_simp

subsection \<open>The lock\<close>




subsection \<open>Disliking a path that is not in the pool\<close>




subsection \<open>Reading commands\<close>
















end
